theory Spec2Isabelle
  imports Complex_Main
begin

section \<open>Tint composition: multiplyColors\<close>

text \<open>
  \<^verbatim>\<open>multiplyColors(localBGRColor, parentBGRColor)\<close> composes the tint of a node with the
  tint of its parent. Colours are JavaScript numbers holding a 24-bit BGR value; they are
  modelled as naturals (every 24-bit colour is one). The helper \<^verbatim>\<open>multiplyHexColors\<close> is
  imported from a file that is not part of the sources, so it is a parameter of the model.
\<close>

definition WHITE_BGR :: nat where
  "WHITE_BGR = 0xFFFFFF"

definition multiplyColors :: "(nat \<Rightarrow> nat \<Rightarrow> nat) \<Rightarrow> nat \<Rightarrow> nat \<Rightarrow> nat" where
  "multiplyColors multiplyHexColors localBGRColor parentBGRColor =
     (if localBGRColor = WHITE_BGR then parentBGRColor
      else if parentBGRColor = WHITE_BGR then localBGRColor
      else multiplyHexColors localBGRColor parentBGRColor)"

section \<open>JavaScript numbers\<close>

text \<open>
  A JavaScript number is an IEEE 754 double: a finite value, an infinity or NaN.
  \<open>Num q\<close> is the finite double of value \<open>q\<close>. The two zeros are one value here: the
  modelled code only adds, subtracts, multiplies, negates and compares numbers, and none
  of these tells \<^verbatim>\<open>-0\<close> from \<^verbatim>\<open>+0\<close>. A sum, difference or product is the exact result
  rounded to the nearest double, ties to the even mantissa, and to an infinity beyond the
  largest double (\<open>round_double\<close>).
\<close>

datatype number = Num rat | PInf | NInf | NaN

text \<open>The number of binary digits of a positive integer.\<close>

function bit_length :: "int \<Rightarrow> int" where
  "bit_length a = (if a \<le> 0 then 0 else 1 + bit_length (a div 2))"
  by auto
termination
  by (relation "measure nat") auto

declare bit_length.simps [simp del]

text \<open>The exponent \<open>e\<close> with \<open>2 ^ e \<le> |q| < 2 ^ (e + 1)\<close>, for \<open>q\<close> other than 0.\<close>

definition binary_exponent :: "rat \<Rightarrow> int" where
  "binary_exponent q =
     (let (a, b) = quotient_of \<bar>q\<bar>;
          k = bit_length a - bit_length b
      in if 2 powi k \<le> \<bar>q\<bar> then k else k - 1)"

definition round_half_even :: "rat \<Rightarrow> int" where
  "round_half_even q =
     (let f = \<lfloor>q\<rfloor>; d = q - of_int f
      in if d < 1 / 2 then f
         else if 1 / 2 < d then f + 1
         else if even f then f else f + 1)"

text \<open>
  The distance of neighbouring doubles around \<open>q\<close>: 52 binary digits below the leading
  one, and never below the subnormal spacing \<open>2 ^ -1074\<close>.
\<close>

definition ulp :: "rat \<Rightarrow> rat" where
  "ulp q = 2 powi (max (binary_exponent q) (- 1022) - 52)"

definition round_to_grid :: "rat \<Rightarrow> rat" where
  "round_to_grid q =
     (if q = 0 then 0 else of_int (round_half_even (q / ulp q)) * ulp q)"

definition round_double :: "rat \<Rightarrow> number" where
  "round_double q =
     (let r = round_to_grid q
      in if 2 ^ 1024 \<le> r then PInf
         else if r \<le> - (2 ^ 1024) then NInf
         else Num r)"

text \<open>The arithmetic and the comparisons of JavaScript numbers.\<close>

instantiation number :: "{uminus, plus, minus, times, ord}"
begin

fun uminus_number :: "number \<Rightarrow> number" where
  "uminus_number (Num a) = Num (- a)"
| "uminus_number PInf = NInf"
| "uminus_number NInf = PInf"
| "uminus_number NaN = NaN"

fun plus_number :: "number \<Rightarrow> number \<Rightarrow> number" where
  "plus_number NaN y = NaN"
| "plus_number x NaN = NaN"
| "plus_number PInf NInf = NaN"
| "plus_number NInf PInf = NaN"
| "plus_number PInf y = PInf"
| "plus_number x PInf = PInf"
| "plus_number NInf y = NInf"
| "plus_number x NInf = NInf"
| "plus_number (Num a) (Num b) = round_double (a + b)"

definition minus_number :: "number \<Rightarrow> number \<Rightarrow> number" where
  "minus_number x y = x + (- y)"

fun times_number :: "number \<Rightarrow> number \<Rightarrow> number" where
  "times_number NaN y = NaN"
| "times_number x NaN = NaN"
| "times_number (Num a) (Num b) = round_double (a * b)"
| "times_number (Num a) PInf = (if a = 0 then NaN else if 0 < a then PInf else NInf)"
| "times_number (Num a) NInf = (if a = 0 then NaN else if 0 < a then NInf else PInf)"
| "times_number PInf (Num b) = (if b = 0 then NaN else if 0 < b then PInf else NInf)"
| "times_number NInf (Num b) = (if b = 0 then NaN else if 0 < b then NInf else PInf)"
| "times_number PInf PInf = PInf"
| "times_number PInf NInf = NInf"
| "times_number NInf PInf = NInf"
| "times_number NInf NInf = PInf"

fun less_eq_number :: "number \<Rightarrow> number \<Rightarrow> bool" where
  "less_eq_number NaN y = False"
| "less_eq_number x NaN = False"
| "less_eq_number (Num a) (Num b) = (a \<le> b)"
| "less_eq_number NInf y = True"
| "less_eq_number x PInf = True"
| "less_eq_number PInf y = False"
| "less_eq_number x NInf = False"

fun less_number :: "number \<Rightarrow> number \<Rightarrow> bool" where
  "less_number NaN y = False"
| "less_number x NaN = False"
| "less_number (Num a) (Num b) = (a < b)"
| "less_number PInf y = False"
| "less_number x NInf = False"
| "less_number NInf y = True"
| "less_number x PInf = True"

instance ..

end

text \<open>A number other than the infinities and NaN.\<close>

definition is_finite :: "number \<Rightarrow> bool" where
  "is_finite n = (case n of Num a \<Rightarrow> True | PInf \<Rightarrow> False | NInf \<Rightarrow> False | NaN \<Rightarrow> False)"


section \<open>ViewContainer\<close>

text \<open>
  Coordinates and sizes are JavaScript numbers. Counters are naturals.
\<close>

record Bounds =
  minX :: number
  minY :: number
  maxX :: number
  maxY :: number

record PointData =
  p_x :: number
  p_y :: number

text \<open>
  The fields of a \<^verbatim>\<open>ViewContainer\<close> that its methods read or write. A render group is
  referred to by an identifier; \<^verbatim>\<open>None\<close> is JavaScript's \<^verbatim>\<open>null\<close>. The class
  \<^verbatim>\<open>RenderGroup\<close> is not part of the sources: each call
  \<^verbatim>\<open>renderGroup.onChildViewUpdate(this)\<close> is recorded, in order, in the field
  \<open>onChildViewUpdate_calls\<close> as the identifier of the group that was called.
  The private fields \<^verbatim>\<open>_didViewChangeTick\<close>, \<^verbatim>\<open>_bounds\<close> and \<^verbatim>\<open>_boundsDirty\<close> are
  \<open>didViewChangeTick\<close>, \<open>bounds_cached\<close> and \<open>boundsDirty\<close>.
  Subclasses extend the record, as they extend the class.
\<close>

record ViewContainer =
  didViewChangeTick :: nat
  didViewUpdate :: bool
  renderGroup :: "nat option"
  parentRenderGroup :: "nat option"
  bounds_cached :: Bounds
  boundsDirty :: bool
  onChildViewUpdate_calls :: "nat list"

text \<open>\<^verbatim>\<open>a || b\<close> on two nullable references.\<close>

definition or_else :: "'a option \<Rightarrow> 'a option \<Rightarrow> 'a option" where
  "or_else a b = (case a of Some v \<Rightarrow> Some v | None \<Rightarrow> b)"

text \<open>\<^verbatim>\<open>ViewContainer.onViewUpdate\<close>.\<close>

definition onViewUpdate :: "'a ViewContainer_scheme \<Rightarrow> 'a ViewContainer_scheme" where
  "onViewUpdate this =
     (let this1 = this\<lparr>didViewChangeTick := didViewChangeTick this + 1\<rparr>;
          this2 = this1\<lparr>boundsDirty := True\<rparr>
      in if didViewUpdate this2 then this2
         else
           (let this3 = this2\<lparr>didViewUpdate := True\<rparr>
            in case or_else (renderGroup this3) (parentRenderGroup this3) of
                 Some g \<Rightarrow> this3\<lparr>onChildViewUpdate_calls := onChildViewUpdate_calls this3 @ [g]\<rparr>
               | None \<Rightarrow> this3))"

text \<open>
  The \<^verbatim>\<open>bounds\<close> getter. \<^verbatim>\<open>updateBounds\<close> is abstract in \<^verbatim>\<open>ViewContainer\<close>, so it is a
  parameter: any transformer of the view. The getter yields the returned Bounds, the view
  after the read, and the number of times it called \<^verbatim>\<open>updateBounds\<close>.
\<close>

definition get_bounds ::
  "('a ViewContainer_scheme \<Rightarrow> 'a ViewContainer_scheme) \<Rightarrow> 'a ViewContainer_scheme
     \<Rightarrow> Bounds \<times> 'a ViewContainer_scheme \<times> nat" where
  "get_bounds updateBounds this =
     (if \<not> boundsDirty this then (bounds_cached this, this, 0)
      else
        (let this1 = updateBounds this;
             this2 = this1\<lparr>boundsDirty := False\<rparr>
         in (bounds_cached this2, this2, 1)))"



section \<open>NineSliceSprite\<close>

text \<open>
  A texture object is identified by its \<open>tex_uid\<close>; \<^verbatim>\<open>===\<close> on textures is equality of
  the model's values. The event emitter of a texture is not part of the sources: the
  textures on which the sprite has registered its \<^verbatim>\<open>onViewUpdate\<close> for \<^verbatim>\<open>'update'\<close> are
  kept in \<open>ns_update_listeners\<close> (\<^verbatim>\<open>on\<close> adds the texture, \<^verbatim>\<open>off\<close> removes it).
  The anchor is an ObservablePoint whose \<^verbatim>\<open>_x\<close> and \<^verbatim>\<open>_y\<close> are the fields of a point.
\<close>

record Texture =
  tex_uid :: nat
  dynamic :: bool

record NineSliceSprite = ViewContainer +
  ns_texture :: "Texture option"
  ns_anchor :: PointData
  ns_leftWidth :: number
  ns_topHeight :: number
  ns_rightWidth :: number
  ns_bottomHeight :: number
  ns_width :: number
  ns_height :: number
  ns_update_listeners :: "Texture list"

definition set_width :: "number \<Rightarrow> 'a NineSliceSprite_scheme \<Rightarrow> 'a NineSliceSprite_scheme" where
  "set_width value this = onViewUpdate (this\<lparr>ns_width := value\<rparr>)"

definition set_height :: "number \<Rightarrow> 'a NineSliceSprite_scheme \<Rightarrow> 'a NineSliceSprite_scheme" where
  "set_height value this = onViewUpdate (this\<lparr>ns_height := value\<rparr>)"

text \<open>
  The \<^verbatim>\<open>texture\<close> setter. \<^verbatim>\<open>Texture.EMPTY\<close> is a static of a class outside the sources and
  is a parameter; the argument \<open>None\<close> is a falsy value (\<^verbatim>\<open>null\<close> or \<^verbatim>\<open>undefined\<close>).
\<close>

definition set_texture ::
  "Texture \<Rightarrow> Texture option \<Rightarrow> 'a NineSliceSprite_scheme \<Rightarrow> 'a NineSliceSprite_scheme" where
  "set_texture Texture_EMPTY value0 this =
     (let value = (case value0 of None \<Rightarrow> Texture_EMPTY | Some t \<Rightarrow> t);
          currentTexture = ns_texture this
      in if currentTexture = Some value then this
         else
           (let this1 =
                  (case currentTexture of
                     None \<Rightarrow> this
                   | Some c \<Rightarrow>
                       if dynamic c
                       then this\<lparr>ns_update_listeners := removeAll c (ns_update_listeners this)\<rparr>
                       else this);
                this2 =
                  (if dynamic value
                   then this1\<lparr>ns_update_listeners := ns_update_listeners this1 @ [value]\<rparr>
                   else this1);
                this3 = this2\<lparr>ns_texture := Some value\<rparr>
            in onViewUpdate this3))"

text \<open>\<^verbatim>\<open>NineSliceSprite.updateBounds\<close>, the four assignments in the order of the source.\<close>

definition NineSliceSprite_updateBounds ::
  "'a NineSliceSprite_scheme \<Rightarrow> 'a NineSliceSprite_scheme" where
  "NineSliceSprite_updateBounds this =
     (let bounds = bounds_cached this;
          anchor = ns_anchor this;
          width = ns_width this;
          height = ns_height this;
          bounds1 = bounds\<lparr>minX := - p_x anchor * width\<rparr>;
          bounds2 = bounds1\<lparr>maxX := minX bounds1 + width\<rparr>;
          bounds3 = bounds2\<lparr>minY := - p_y anchor * height\<rparr>;
          bounds4 = bounds3\<lparr>maxY := minY bounds3 + height\<rparr>
      in this\<lparr>bounds_cached := bounds4\<rparr>)"

section \<open>AbstractText and HTMLText\<close>

text \<open>
  The style of a text is an object of a class outside the sources; its type is a
  parameter of the record. \<^verbatim>\<open>_text\<close> is the string the view holds.
\<close>

record 's AbstractText = ViewContainer +
  at_text :: string
  at_anchor :: PointData
  at_style :: 's
  didTextUpdate :: bool

text \<open>The override \<^verbatim>\<open>AbstractText.onViewUpdate\<close>, which ends in the inherited method.\<close>

definition AbstractText_onViewUpdate ::
  "('s, 'a) AbstractText_scheme \<Rightarrow> ('s, 'a) AbstractText_scheme" where
  "AbstractText_onViewUpdate this =
     (let this1 = (if \<not> didViewUpdate this then this\<lparr>didTextUpdate := True\<rparr> else this)
      in onViewUpdate this1)"

text \<open>
  The \<^verbatim>\<open>text\<close> setter. A TextString is a string, a number or an object with a
  \<^verbatim>\<open>toString\<close> method: the value is of any type, given with its \<^verbatim>\<open>toString\<close>.
\<close>

definition set_text ::
  "('v \<Rightarrow> string) \<Rightarrow> 'v \<Rightarrow> ('s, 'a) AbstractText_scheme \<Rightarrow> ('s, 'a) AbstractText_scheme" where
  "set_text toString value0 this =
     (let value = toString value0
      in if at_text this = value then this
         else AbstractText_onViewUpdate (this\<lparr>at_text := value\<rparr>))"




text \<open>
  \<^verbatim>\<open>HTMLText.updateBounds\<close>. \<^verbatim>\<open>measureHtmlText\<close> lays the text out in the DOM and is outside
  the sources: it is a parameter that gives the measured size of a text in a style.
\<close>

record HTMLTextMeasurement =
  width :: number
  height :: number

definition HTMLText_updateBounds ::
  "(string \<Rightarrow> 's \<Rightarrow> HTMLTextMeasurement)
     \<Rightarrow> ('s, 'a) AbstractText_scheme \<Rightarrow> ('s, 'a) AbstractText_scheme" where
  "HTMLText_updateBounds measureHtmlText this =
     (let bounds = bounds_cached this;
          anchor = at_anchor this;
          htmlMeasurement = measureHtmlText (at_text this) (at_style this);
          w = width htmlMeasurement;
          h = height htmlMeasurement;
          bounds1 = bounds\<lparr>minX := - p_x anchor * w\<rparr>;
          bounds2 = bounds1\<lparr>maxX := minX bounds1 + w\<rparr>;
          bounds3 = bounds2\<lparr>minY := - p_y anchor * h\<rparr>;
          bounds4 = bounds3\<lparr>maxY := minY bounds3 + h\<rparr>
      in this\<lparr>bounds_cached := bounds4\<rparr>)"

section \<open>MeshPipe\<close>

text \<open>
  The parts of a mesh the pipe reads. A mesh is referred to by its \<open>uid\<close>; \<open>batched\<close>
  is the value of its getter at the time of the call. The flags \<^verbatim>\<open>_roundPixels\<close>
  (\<^verbatim>\<open>0 | 1\<close>) are booleans and their bitwise or is a disjunction.
\<close>

record MeshGeometry =
  indices :: "nat list"
  positions :: "number list"

type_synonym Matrix = "number \<times> number \<times> number \<times> number \<times> number \<times> number"

record Mesh =
  uid :: nat
  batched :: bool
  m_texture :: Texture
  m_geometry :: MeshGeometry
  groupTransform :: Matrix
  m_roundPixels :: bool

record MeshData =
  md_batched :: bool
  indexSize :: nat
  vertexSize :: nat

text \<open>
  The fields of the pooled \<^verbatim>\<open>BatchableMesh\<close> record that the pipe reads or writes. The
  class is outside the sources. \<open>batcher\<close> is the field \<^verbatim>\<open>_batcher\<close>: the batcher that holds
  the record, \<open>None\<close> for \<^verbatim>\<open>null\<close>, as in a record fresh from the pool. The pipe reads the
  field and never assigns it.
\<close>

record BatchableMesh =
  renderable :: nat
  texture :: Texture
  geometry :: MeshGeometry
  transform :: Matrix
  roundPixels :: bool
  textureMatrixUpdateId :: int
  batcher :: "nat option"

text \<open>
  The batcher and the instruction set are outside the sources. Every call the pipe makes
  on a batcher is recorded in order; an instruction set is the list of what was emitted
  into it.
\<close>

datatype batcher_call =
    AddToBatch BatchableMesh
  | Break
  | UpdateElement BatchableMesh
  | CheckAndUpdateTexture BatchableMesh Texture



datatype pipe_error = TypeError

text \<open>
  The state of a pipe between its construction and its \<^verbatim>\<open>destroy()\<close>. In the two hashes
  \<open>None\<close> stands for an entry that is absent or \<^verbatim>\<open>null\<close>: the code only tests entries for
  truthiness. \<open>BigPool_returned\<close> lists the records handed back with \<^verbatim>\<open>BigPool.return\<close>;
  \<open>destroyed_listeners\<close> lists the meshes on which the pipe's handler for \<^verbatim>\<open>'destroyed'\<close>
  is registered.
\<close>

record MeshPipe =
  renderer_roundPixels :: bool
  meshDataHash :: "nat \<rightharpoonup> MeshData"
  gpuBatchableMeshHash :: "nat \<rightharpoonup> BatchableMesh"
  BigPool_returned :: "BatchableMesh list"
  batcher_calls :: "batcher_call list"
  destroyed_listeners :: "nat list"

text \<open>
  Modelled from the spec: \<^verbatim>\<open>BatchableMesh.setTexture\<close> is outside the sources; it refreshes
  the texture reference of the record.
\<close>

definition setTexture :: "Texture \<Rightarrow> BatchableMesh \<Rightarrow> BatchableMesh" where
  "setTexture value gpuMesh = gpuMesh\<lparr>texture := value\<rparr>"



definition batcher_updateElement :: "BatchableMesh \<Rightarrow> MeshPipe \<Rightarrow> MeshPipe" where
  "batcher_updateElement gpuMesh this =
     this\<lparr>batcher_calls := batcher_calls this @ [UpdateElement gpuMesh]\<rparr>"




text \<open>
  \<^verbatim>\<open>_initBatchableMesh\<close> and \<^verbatim>\<open>_getBatchableMesh\<close>. The pool is outside the sources: the
  record \<^verbatim>\<open>BigPool.get\<close> hands out is the parameter \<open>pooled\<close>.
\<close>

definition initBatchableMesh :: "BatchableMesh \<Rightarrow> MeshPipe \<Rightarrow> Mesh \<Rightarrow> BatchableMesh \<times> MeshPipe" where
  "initBatchableMesh pooled this mesh =
     (let gpuMesh = pooled;
          gpuMesh1 = gpuMesh\<lparr>renderable := uid mesh\<rparr>;
          gpuMesh2 = setTexture (m_texture mesh) gpuMesh1;
          gpuMesh3 = gpuMesh2\<lparr>transform := groupTransform mesh\<rparr>;
          gpuMesh4 = gpuMesh3\<lparr>roundPixels := (renderer_roundPixels this \<or> m_roundPixels mesh)\<rparr>;
          this1 = this\<lparr>gpuBatchableMeshHash := (gpuBatchableMeshHash this)(uid mesh \<mapsto> gpuMesh4)\<rparr>
      in (gpuMesh4, this1))"

definition getBatchableMesh :: "BatchableMesh \<Rightarrow> MeshPipe \<Rightarrow> Mesh \<Rightarrow> BatchableMesh \<times> MeshPipe" where
  "getBatchableMesh pooled this mesh =
     (case gpuBatchableMeshHash this (uid mesh) of
        Some gpuMesh \<Rightarrow> (gpuMesh, this)
      | None \<Rightarrow> initBatchableMesh pooled this mesh)"



text \<open>
  \<^verbatim>\<open>updateRenderable\<close>. Reading a field of a missing hash entry raises a TypeError, and
  so does the call of \<^verbatim>\<open>updateElement\<close> on the \<^verbatim>\<open>_batcher\<close> of a record that has none.
\<close>

definition updateRenderable :: "MeshPipe \<Rightarrow> Mesh \<Rightarrow> pipe_error + MeshPipe" where
  "updateRenderable this mesh =
     (if batched mesh then
        (case gpuBatchableMeshHash this (uid mesh) of
           None \<Rightarrow> Inl TypeError
         | Some gpuBatchableMesh \<Rightarrow>
             (let gpuBatchableMesh1 = setTexture (m_texture mesh) gpuBatchableMesh;
                  gpuBatchableMesh2 = gpuBatchableMesh1\<lparr>geometry := m_geometry mesh\<rparr>;
                  this1 = this\<lparr>gpuBatchableMeshHash :=
                             (gpuBatchableMeshHash this)(uid mesh \<mapsto> gpuBatchableMesh2)\<rparr>
              in case batcher gpuBatchableMesh2 of
                   None \<Rightarrow> Inl TypeError
                 | Some b \<Rightarrow> Inr (batcher_updateElement gpuBatchableMesh2 this1)))
      else Inr this)"

text \<open>\<^verbatim>\<open>destroyRenderable\<close>. No statement of it can raise on a live pipe.\<close>

definition destroyRenderable :: "MeshPipe \<Rightarrow> Mesh \<Rightarrow> MeshPipe" where
  "destroyRenderable this mesh =
     (let this1 = this\<lparr>meshDataHash := (meshDataHash this)(uid mesh := None)\<rparr>;
          gpuMesh = gpuBatchableMeshHash this1 (uid mesh);
          this2 =
            (case gpuMesh of
               Some g \<Rightarrow>
                 (let this1a = this1\<lparr>BigPool_returned := BigPool_returned this1 @ [g]\<rparr>
                  in this1a\<lparr>gpuBatchableMeshHash := (gpuBatchableMeshHash this1a)(uid mesh := None)\<rparr>)
             | None \<Rightarrow> this1)
      in this2\<lparr>destroyed_listeners := removeAll (uid mesh) (destroyed_listeners this2)\<rparr>)"

section \<open>Properties named by the specification\<close>

text \<open>
  The render groups one call of \<^verbatim>\<open>onViewUpdate\<close> notifies, as the specification words
  it: none when an update is already pending, otherwise the owning render group, or else
  the nearest ancestor's, when the view has either.
\<close>

definition onViewUpdate_notifies :: "'a ViewContainer_scheme \<Rightarrow> nat list" where
  "onViewUpdate_notifies this =
     (if didViewUpdate this then []
      else case or_else (renderGroup this) (parentRenderGroup this) of
             Some g \<Rightarrow> [g]
           | None \<Rightarrow> [])"

text \<open>The invariant of computed Bounds in the data model of the specification.\<close>

definition Bounds_ordered :: "Bounds \<Rightarrow> bool" where
  "Bounds_ordered b = (minX b \<le> maxX b \<and> minY b \<le> maxY b)"



section \<open>Example objects\<close>

definition example_view :: ViewContainer where
  "example_view =
     \<lparr>didViewChangeTick = 0, didViewUpdate = False, renderGroup = None,
      parentRenderGroup = Some 7,
      bounds_cached = \<lparr>minX = Num 0, minY = Num 1, maxX = Num 0, maxY = Num 0\<rparr>,
      boundsDirty = False, onChildViewUpdate_calls = []\<rparr>"

text \<open>A view that is not in any render group, as every view is when it is constructed.\<close>

definition detached_view :: ViewContainer where
  "detached_view =
     \<lparr>didViewChangeTick = 0, didViewUpdate = False, renderGroup = None,
      parentRenderGroup = None,
      bounds_cached = \<lparr>minX = Num 0, minY = Num 1, maxX = Num 0, maxY = Num 0\<rparr>,
      boundsDirty = True, onChildViewUpdate_calls = []\<rparr>"

definition example_texture :: Texture where
  "example_texture = \<lparr>tex_uid = 3, dynamic = False\<rparr>"

definition empty_texture :: Texture where
  "empty_texture = \<lparr>tex_uid = 0, dynamic = False\<rparr>"

definition example_sprite :: NineSliceSprite where
  "example_sprite =
     \<lparr>didViewChangeTick = 0, didViewUpdate = False, renderGroup = None,
      parentRenderGroup = Some 7,
      bounds_cached = \<lparr>minX = Num 0, minY = Num 1, maxX = Num 0, maxY = Num 0\<rparr>,
      boundsDirty = True, onChildViewUpdate_calls = [],
      ns_texture = Some example_texture,
      ns_anchor = \<lparr>p_x = Num 0, p_y = Num 0\<rparr>,
      ns_leftWidth = Num 10, ns_topHeight = Num 10, ns_rightWidth = Num 10,
      ns_bottomHeight = Num 10,
      ns_width = Num 100, ns_height = Num 50, ns_update_listeners = []\<rparr>"

definition example_text :: "unit AbstractText" where
  "example_text =
     \<lparr>didViewChangeTick = 0, didViewUpdate = False, renderGroup = None,
      parentRenderGroup = Some 7,
      bounds_cached = \<lparr>minX = Num 0, minY = Num 1, maxX = Num 0, maxY = Num 0\<rparr>,
      boundsDirty = True, onChildViewUpdate_calls = [],
      at_text = ''hello'', at_anchor = \<lparr>p_x = Num 0, p_y = Num 0\<rparr>,
      at_style = (), didTextUpdate = True\<rparr>"

definition example_measure :: "string \<Rightarrow> unit \<Rightarrow> HTMLTextMeasurement" where
  "example_measure s st = \<lparr>width = Num (8 * of_nat (length s)), height = Num 16\<rparr>"

definition example_geometry :: MeshGeometry where
  "example_geometry =
     \<lparr>indices = [0, 1, 2], positions = [Num 0, Num 0, Num 1, Num 0, Num 0, Num 1]\<rparr>"

definition example_mesh :: Mesh where
  "example_mesh =
     \<lparr>uid = 5, batched = True, m_texture = example_texture, m_geometry = example_geometry,
      groupTransform = (Num 1, Num 0, Num 0, Num 1, Num 0, Num 0), m_roundPixels = False\<rparr>"

text \<open>A mesh that is drawn on its own.\<close>

definition example_mesh_alone :: Mesh where
  "example_mesh_alone =
     \<lparr>uid = 6, batched = False, m_texture = example_texture, m_geometry = example_geometry,
      groupTransform = (Num 1, Num 0, Num 0, Num 1, Num 0, Num 0), m_roundPixels = False\<rparr>"

definition example_record :: BatchableMesh where
  "example_record =
     \<lparr>renderable = 5, texture = empty_texture, geometry = example_geometry,
      transform = (Num 1, Num 0, Num 0, Num 1, Num 0, Num 0), roundPixels = False,
      textureMatrixUpdateId = 4, batcher = Some 1\<rparr>"

definition pooled_record :: BatchableMesh where
  "pooled_record =
     \<lparr>renderable = 0, texture = empty_texture, geometry = \<lparr>indices = [], positions = []\<rparr>,
      transform = (Num 1, Num 0, Num 0, Num 1, Num 0, Num 0), roundPixels = False,
      textureMatrixUpdateId = - 1, batcher = None\<rparr>"

definition example_pipe :: MeshPipe where
  "example_pipe =
     \<lparr>renderer_roundPixels = False,
      meshDataHash =
        [5 \<mapsto> \<lparr>md_batched = True, indexSize = 3, vertexSize = 6\<rparr>,
         6 \<mapsto> \<lparr>md_batched = False, indexSize = 3, vertexSize = 6\<rparr>],
      gpuBatchableMeshHash = [5 \<mapsto> example_record],
      BigPool_returned = [],
      batcher_calls = [],
      destroyed_listeners = [5, 6]\<rparr>"

text \<open>
  A pipe that has mesh-data for mesh 5 and no batch record for it, as after a call of
  \<^verbatim>\<open>validateRenderable\<close> that found the mesh newly batched.
\<close>

definition pipe_without_record :: MeshPipe where
  "pipe_without_record = example_pipe\<lparr>gpuBatchableMeshHash := Map.empty\<rparr>"

text \<open>
  That pipe after \<^verbatim>\<open>_getBatchableMesh\<close> has stored a record from the pool for mesh 5: the
  record has no batcher.
\<close>

definition pipe_with_pooled_record :: MeshPipe where
  "pipe_with_pooled_record = snd (getBatchableMesh pooled_record pipe_without_record example_mesh)"



text \<open>A measurement with a negative width, and a text whose anchor is NaN.\<close>

definition negative_measure :: "string \<Rightarrow> unit \<Rightarrow> HTMLTextMeasurement" where
  "negative_measure s st = \<lparr>width = Num (- 10), height = Num 16\<rparr>"

definition nan_anchor_text :: "unit AbstractText" where
  "nan_anchor_text = example_text\<lparr>at_anchor := \<lparr>p_x = NaN, p_y = Num 0\<rparr>\<rparr>"

text \<open>A sprite whose anchor is NaN, and a measurement with an infinite width.\<close>

definition nan_anchor_sprite :: NineSliceSprite where
  "nan_anchor_sprite = example_sprite\<lparr>ns_anchor := \<lparr>p_x = NaN, p_y = Num 0\<rparr>\<rparr>"

definition infinite_measure :: "string \<Rightarrow> unit \<Rightarrow> HTMLTextMeasurement" where
  "infinite_measure s st = \<lparr>width = PInf, height = Num 16\<rparr>"


section \<open>Rounding to doubles\<close>

lemma bit_length_bounds:
  "0 < a \<Longrightarrow> 1 \<le> bit_length a \<and> 2 ^ nat (bit_length a - 1) \<le> a \<and> a < 2 ^ nat (bit_length a)"
proof (induction a rule: bit_length.induct)
  case (1 a)
  show ?case
  proof (cases "a div 2 \<le> 0")
    case True
    with "1.prems" have a1: "a = 1" by linarith
    have "bit_length 0 = 0" by (simp add: bit_length.simps [of 0])
    then have "bit_length 1 = 1" by (simp add: bit_length.simps [of 1])
    then show ?thesis by (simp add: a1)
  next
    case False
    then have pos: "0 < a div 2" by simp
    from "1.prems" have na: "\<not> a \<le> 0" by simp
    from "1.IH" [OF na pos]
    have l: "1 \<le> bit_length (a div 2)"
      and lo: "2 ^ nat (bit_length (a div 2) - 1) \<le> a div 2"
      and hi: "a div 2 < 2 ^ nat (bit_length (a div 2))"
      by simp_all
    have b: "bit_length a = 1 + bit_length (a div 2)"
      using na by (simp add: bit_length.simps [of a])
    have e: "nat (bit_length (a div 2)) = Suc (nat (bit_length (a div 2) - 1))"
      using l by simp
    have "2 ^ nat (bit_length (a div 2)) \<le> a"
      using lo e by simp
    moreover have "a < 2 * 2 ^ nat (bit_length (a div 2))"
      using hi by linarith
    ultimately show ?thesis
      using l by (simp add: b nat_add_distrib)
  qed
qed


lemma bit_length_powi:
  assumes "0 < a"
  shows "(2::rat) powi (bit_length a - 1) \<le> of_int a" and "of_int a < (2::rat) powi bit_length a"
proof -
  from bit_length_bounds [OF assms]
  have l: "1 \<le> bit_length a"
    and lo: "2 ^ nat (bit_length a - 1) \<le> a"
    and hi: "a < 2 ^ nat (bit_length a)"
    by simp_all
  have "(of_int (2 ^ nat (bit_length a - 1)) :: rat) \<le> of_int a"
    using lo by (simp only: of_int_le_iff)
  then show "(2::rat) powi (bit_length a - 1) \<le> of_int a"
    using l by (simp add: power_int_def)
  have "(of_int a :: rat) < of_int (2 ^ nat (bit_length a))"
    using hi by (simp only: of_int_less_iff)
  then show "of_int a < (2::rat) powi bit_length a"
    using l by (simp add: power_int_def)
qed

lemma binary_exponent_bounds:
  assumes "q \<noteq> 0"
  shows "2 powi binary_exponent q \<le> \<bar>q\<bar>" and "\<bar>q\<bar> < 2 powi (binary_exponent q + 1)"
proof -
  obtain a b where ab: "quotient_of \<bar>q\<bar> = (a, b)"
    by (cases "quotient_of \<bar>q\<bar>") auto
  have bpos: "0 < b"
    using quotient_of_denom_pos [OF ab] .
  have qab: "\<bar>q\<bar> = of_int a / of_int b"
    using quotient_of_div [OF ab] .
  have qpos: "0 < \<bar>q\<bar>"
    using assms by simp
  have apos: "0 < a"
    using qpos bpos qab by (simp add: zero_less_divide_iff)
  let ?k = "bit_length a - bit_length b"
  have e: "binary_exponent q = (if 2 powi ?k \<le> \<bar>q\<bar> then ?k else ?k - 1)"
    by (simp add: binary_exponent_def ab Let_def)
  have a_lo: "(2::rat) powi (bit_length a - 1) \<le> of_int a"
    and a_hi: "of_int a < (2::rat) powi bit_length a"
    using bit_length_powi [OF apos] by simp_all
  have b_lo: "(2::rat) powi (bit_length b - 1) \<le> of_int b"
    and b_hi: "of_int b < (2::rat) powi bit_length b"
    using bit_length_powi [OF bpos] by simp_all
  have b0: "(0::rat) < of_int b"
    using bpos by simp
  have upper: "\<bar>q\<bar> < 2 powi (?k + 1)"
  proof -
    have "of_int a < (2::rat) powi (?k + 1) * 2 powi (bit_length b - 1)"
      using a_hi by (simp add: power_int_add [symmetric])
    also have "\<dots> \<le> 2 powi (?k + 1) * of_int b"
      using b_lo by (simp add: mult_left_mono)
    finally show ?thesis
      using b0 by (simp add: qab pos_divide_less_eq)
  qed
  have lower: "2 powi (?k - 1) \<le> \<bar>q\<bar>"
  proof -
    have "(2::rat) powi (?k - 1) * of_int b \<le> 2 powi (?k - 1) * 2 powi bit_length b"
      using b_hi by (simp add: mult_left_mono)
    also have "\<dots> = 2 powi (bit_length a - 1)"
      by (simp add: power_int_add [symmetric])
    also have "\<dots> \<le> of_int a"
      using a_lo .
    finally show ?thesis
      using b0 by (simp add: qab pos_le_divide_eq)
  qed
  show "2 powi binary_exponent q \<le> \<bar>q\<bar>"
    using lower by (simp add: e)
  show "\<bar>q\<bar> < 2 powi (binary_exponent q + 1)"
    using upper by (auto simp add: e)
qed


lemma pow2_less_cancel: "(2::rat) powi m < 2 powi n \<Longrightarrow> m < n"
proof (rule ccontr)
  assume a: "(2::rat) powi m < 2 powi n" and "\<not> m < n"
  then have "n \<le> m" by simp
  then have "(2::rat) powi n \<le> 2 powi m"
    by (rule power_int_increasing) simp
  with a show False by simp
qed

lemma pow2_le_cancel: "(2::rat) powi m \<le> 2 powi n \<Longrightarrow> m \<le> n"
proof (rule ccontr)
  assume a: "(2::rat) powi m \<le> 2 powi n" and "\<not> m \<le> n"
  then have "n < m" by simp
  then have "(2::rat) powi n < 2 powi m"
    by (rule power_int_strict_increasing) simp
  with a show False by simp
qed

lemma binary_exponent_unique:
  assumes "q \<noteq> 0" and lo: "2 powi k \<le> \<bar>q\<bar>" and hi: "\<bar>q\<bar> < 2 powi (k + 1)"
  shows "binary_exponent q = k"
proof -
  let ?e = "binary_exponent q"
  have elo: "2 powi ?e \<le> \<bar>q\<bar>" and ehi: "\<bar>q\<bar> < 2 powi (?e + 1)"
    using binary_exponent_bounds [OF assms(1)] by simp_all
  have "(2::rat) powi ?e < 2 powi (k + 1)"
    using elo hi by simp
  then have a: "?e < k + 1"
    by (rule pow2_less_cancel)
  have "(2::rat) powi k < 2 powi (?e + 1)"
    using lo ehi by simp
  then have b: "k < ?e + 1"
    by (rule pow2_less_cancel)
  from a b show ?thesis by simp
qed

lemma binary_exponent_minus: "binary_exponent (- q) = binary_exponent q"
  by (simp add: binary_exponent_def)

lemma round_half_even_floor:
  "\<lfloor>q\<rfloor> \<le> round_half_even q" "round_half_even q \<le> \<lfloor>q\<rfloor> + 1"
  by (simp_all add: round_half_even_def Let_def)

lemma round_half_even_of_int: "round_half_even (of_int n) = n"
  by (simp add: round_half_even_def Let_def)

lemma round_half_even_ge: "of_int n \<le> q \<Longrightarrow> n \<le> round_half_even q"
proof -
  assume "of_int n \<le> q"
  then have "n \<le> \<lfloor>q\<rfloor>" by (simp add: le_floor_iff)
  then show ?thesis using round_half_even_floor(1) [of q] by linarith
qed

lemma round_half_even_le:
  assumes "q \<le> of_int n"
  shows "round_half_even q \<le> n"
proof (cases "q = of_int n")
  case True
  then show ?thesis by (simp add: round_half_even_of_int)
next
  case False
  with assms have "q < of_int n" by simp
  then have "\<lfloor>q\<rfloor> < n" by (simp add: floor_less_iff)
  then show ?thesis using round_half_even_floor(2) [of q] by linarith
qed

lemma round_half_even_mono:
  assumes "p \<le> q"
  shows "round_half_even p \<le> round_half_even q"
proof (cases "\<lfloor>p\<rfloor> = \<lfloor>q\<rfloor>")
  case True
  have "p - of_int \<lfloor>q\<rfloor> \<le> q - of_int \<lfloor>q\<rfloor>"
    using assms by simp
  then show ?thesis
    by (auto simp add: round_half_even_def Let_def True)
next
  case False
  have "\<lfloor>p\<rfloor> \<le> \<lfloor>q\<rfloor>"
    using assms by (rule floor_mono)
  with False have "\<lfloor>p\<rfloor> + 1 \<le> \<lfloor>q\<rfloor>" by simp
  then show ?thesis
    using round_half_even_floor(2) [of p] round_half_even_floor(1) [of q] by linarith
qed

lemma round_half_even_nearest:
  assumes "\<bar>q - of_int m\<bar> < 1 / 2"
  shows "round_half_even q = m"
proof -
  have lo: "of_int m - 1 / 2 < q" and hi: "q < of_int m + 1 / 2"
    using assms by linarith+
  have f: "\<lfloor>q\<rfloor> = m \<or> \<lfloor>q\<rfloor> = m - 1"
  proof -
    have "of_int (m - 1) \<le> q" using lo by simp
    then have a: "m - 1 \<le> \<lfloor>q\<rfloor>" by (simp only: le_floor_iff)
    have "q < of_int (m + 1)" using hi by simp
    then have b: "\<lfloor>q\<rfloor> < m + 1" by (simp only: floor_less_iff)
    from a b show ?thesis by linarith
  qed
  show ?thesis
  proof (cases "\<lfloor>q\<rfloor> = m")
    case True
    have "q - of_int m < 1 / 2" using hi by simp
    then show ?thesis
      by (simp add: round_half_even_def Let_def True)
  next
    case False
    with f have g: "\<lfloor>q\<rfloor> = m - 1" by simp
    have "1 / 2 < q - of_int (m - 1)" using lo by simp
    then show ?thesis
      by (simp add: round_half_even_def Let_def g)
  qed
qed

lemma round_half_even_minus: "round_half_even (- q) = - round_half_even q"
proof (cases "q = of_int \<lfloor>q\<rfloor>")
  case True
  then have "round_half_even q = \<lfloor>q\<rfloor>"
    using round_half_even_of_int [of "\<lfloor>q\<rfloor>"] by simp
  moreover have "round_half_even (- q) = - \<lfloor>q\<rfloor>"
    using round_half_even_of_int [of "- \<lfloor>q\<rfloor>"] True by simp
  ultimately show ?thesis by simp
next
  case False
  have fl: "of_int \<lfloor>q\<rfloor> < q"
    using False of_int_floor_le [of q] by (auto simp add: less_le)
  have fm: "\<lfloor>- q\<rfloor> = - \<lfloor>q\<rfloor> - 1"
    using fl by (simp add: floor_eq_iff) linarith
  show ?thesis
    using fl by (auto simp add: round_half_even_def Let_def fm)
qed


lemma ulp_pos: "0 < ulp q"
  by (simp add: ulp_def)

lemma ulp_minus: "ulp (- q) = ulp q"
  by (simp add: ulp_def binary_exponent_minus)

lemma round_to_grid_minus: "round_to_grid (- q) = - round_to_grid q"
  by (simp add: round_to_grid_def ulp_minus round_half_even_minus)

lemma round_to_grid_nonneg:
  assumes "0 \<le> q"
  shows "0 \<le> round_to_grid q"
proof -
  have "0 \<le> q / ulp q"
    using assms ulp_pos [of q] by simp
  then have "0 \<le> round_half_even (q / ulp q)"
    using round_half_even_ge [of 0 "q / ulp q"] by simp
  then show ?thesis
    using ulp_pos [of q] by (simp add: round_to_grid_def)
qed

lemma pow2_div: "(2::rat) powi a / 2 powi b = 2 powi (a - b)"
  by (simp add: power_int_diff)

lemma pow2_53: "(2::rat) powi 53 = of_int (2 ^ 53)" and pow2_52: "(2::rat) powi 52 = of_int (2 ^ 52)"
  by simp_all

lemma pow2_mult_53: "of_int (2 ^ 53) * (2::rat) powi (e - 52) = 2 powi (e + 1)"
proof -
  have "(2::rat) powi (53 + (e - 52)) = 2 powi 53 * 2 powi (e - 52)"
    by (rule power_int_add) simp
  moreover have "53 + (e - 52) = e + 1" by simp
  ultimately show ?thesis by simp
qed

lemma pow2_mult_52: "of_int (2 ^ 52) * (2::rat) powi (e - 52) = 2 powi e"
proof -
  have "(2::rat) powi (52 + (e - 52)) = 2 powi 52 * 2 powi (e - 52)"
    by (rule power_int_add) simp
  moreover have "52 + (e - 52) = e" by simp
  ultimately show ?thesis by simp
qed

text \<open>Bounds of the rounded value of a positive number within its binade.\<close>

lemma round_to_grid_upper:
  assumes "0 < q"
  shows "round_to_grid q \<le> 2 powi (max (binary_exponent q) (- 1022) + 1)"
proof -
  let ?e = "max (binary_exponent q) (- 1022)"
  have q0: "q \<noteq> 0" using assms by simp
  have "q < 2 powi (binary_exponent q + 1)"
    using binary_exponent_bounds(2) [OF q0] assms by simp
  also have "\<dots> \<le> 2 powi (?e + 1)"
    by (rule power_int_increasing) simp_all
  finally have "q / ulp q \<le> 2 powi (?e + 1) / ulp q"
    using ulp_pos [of q] by (simp add: divide_right_mono)
  also have "\<dots> = of_int (2 ^ 53)"
    by (simp only: ulp_def pow2_div) (simp)
  finally have "round_half_even (q / ulp q) \<le> 2 ^ 53"
    by (rule round_half_even_le)
  then have "(of_int (round_half_even (q / ulp q)) :: rat) \<le> of_int (2 ^ 53)"
    by (simp only: of_int_le_iff)
  then have "of_int (round_half_even (q / ulp q)) * ulp q \<le> of_int (2 ^ 53) * ulp q"
    using ulp_pos [of q] by (simp only: mult_le_cancel_right) simp
  also have "of_int (2 ^ 53) * ulp q = 2 powi (?e + 1)"
    by (simp only: ulp_def pow2_mult_53)
  finally show ?thesis
    using q0 by (simp add: round_to_grid_def)
qed

lemma round_to_grid_lower:
  assumes "0 < q" and "- 1022 \<le> binary_exponent q"
  shows "2 powi binary_exponent q \<le> round_to_grid q"
proof -
  let ?e = "binary_exponent q"
  have q0: "q \<noteq> 0" using assms by simp
  have u: "ulp q = 2 powi (?e - 52)"
    using assms(2) by (simp add: ulp_def max_def)
  have "2 powi ?e \<le> q"
    using binary_exponent_bounds(1) [OF q0] assms by simp
  then have "2 powi ?e / ulp q \<le> q / ulp q"
    using ulp_pos [of q] by (simp add: divide_right_mono)
  moreover have "2 powi ?e / ulp q = of_int (2 ^ 52)"
    by (simp only: u pow2_div) simp
  ultimately have "of_int (2 ^ 52) \<le> q / ulp q"
    by simp
  then have "2 ^ 52 \<le> round_half_even (q / ulp q)"
    by (rule round_half_even_ge)
  then have "(of_int (2 ^ 52) :: rat) \<le> of_int (round_half_even (q / ulp q))"
    by (simp only: of_int_le_iff)
  then have "of_int (2 ^ 52) * ulp q \<le> of_int (round_half_even (q / ulp q)) * ulp q"
    using ulp_pos [of q] by (simp only: mult_le_cancel_right) simp
  moreover have "of_int (2 ^ 52) * ulp q = 2 powi ?e"
    by (simp only: u pow2_mult_52)
  ultimately show ?thesis
    using q0 by (simp add: round_to_grid_def)
qed

lemma binary_exponent_mono:
  assumes "0 < p" and "p \<le> q"
  shows "binary_exponent p \<le> binary_exponent q"
proof -
  have p0: "p \<noteq> 0" and q0: "q \<noteq> 0" using assms by simp_all
  have "2 powi binary_exponent p \<le> p"
    using binary_exponent_bounds(1) [OF p0] assms by simp
  also have "p \<le> q" by fact
  also have "q < 2 powi (binary_exponent q + 1)"
    using binary_exponent_bounds(2) [OF q0] assms by simp
  finally have "binary_exponent p < binary_exponent q + 1"
    by (rule pow2_less_cancel)
  then show ?thesis by simp
qed

lemma round_to_grid_mono_pos:
  assumes "0 < p" and "p \<le> q"
  shows "round_to_grid p \<le> round_to_grid q"
proof -
  let ?ep = "max (binary_exponent p) (- 1022)"
  let ?eq = "max (binary_exponent q) (- 1022)"
  have qpos: "0 < q" using assms by simp
  have le: "?ep \<le> ?eq"
    using binary_exponent_mono [OF assms] by simp
  show ?thesis
  proof (cases "?ep = ?eq")
    case True
    then have u: "ulp p = ulp q" by (simp add: ulp_def)
    have "p / ulp q \<le> q / ulp q"
      using assms ulp_pos [of q] by (simp add: divide_right_mono)
    then have "round_half_even (p / ulp q) \<le> round_half_even (q / ulp q)"
      by (rule round_half_even_mono)
    then have "(of_int (round_half_even (p / ulp q)) :: rat) \<le> of_int (round_half_even (q / ulp q))"
      by (simp only: of_int_le_iff)
    then have "of_int (round_half_even (p / ulp q)) * ulp q
        \<le> of_int (round_half_even (q / ulp q)) * ulp q"
      using ulp_pos [of q] by (simp only: mult_le_cancel_right) simp
    then show ?thesis
      using assms qpos by (simp add: round_to_grid_def u)
  next
    case False
    from False le have lt: "?ep < ?eq"
      by (rule order.not_eq_order_implies_strict)
    then have eq: "?eq = binary_exponent q" and big: "- 1022 \<le> binary_exponent q"
      by linarith+
    have "round_to_grid p \<le> 2 powi (?ep + 1)"
      using round_to_grid_upper [OF assms(1)] .
    also have "\<dots> \<le> 2 powi binary_exponent q"
    proof (rule power_int_increasing)
      show "?ep + 1 \<le> binary_exponent q" using lt eq by linarith
    qed simp
    also have "\<dots> \<le> round_to_grid q"
      using round_to_grid_lower [OF qpos big] .
    finally show ?thesis .
  qed
qed

lemma round_to_grid_mono:
  assumes "p \<le> q"
  shows "round_to_grid p \<le> round_to_grid q"
proof -
  consider "0 < p" | "p \<le> 0" "0 \<le> q" | "q < 0"
    using assms by linarith
  then show ?thesis
  proof cases
    case 1
    then show ?thesis using round_to_grid_mono_pos assms by simp
  next
    case 2
    have "round_to_grid p \<le> 0"
      using round_to_grid_nonneg [of "- p"] 2 by (simp add: round_to_grid_minus)
    moreover have "0 \<le> round_to_grid q"
      using round_to_grid_nonneg 2 by simp
    ultimately show ?thesis by simp
  next
    case 3
    then have "0 < - q" and "- q \<le> - p" using assms by simp_all
    then have "round_to_grid (- q) \<le> round_to_grid (- p)"
      by (rule round_to_grid_mono_pos)
    then show ?thesis by (simp add: round_to_grid_minus)
  qed
qed


lemma round_to_grid_on_grid:
  assumes q: "q \<noteq> 0" and u: "ulp q = v" and m: "q = of_int m * v"
  shows "round_to_grid q = q"
proof -
  have v: "0 < v" using ulp_pos [of q] u by simp
  have "q / v = of_int m * v / v" by (simp only: m)
  also have "\<dots> = of_int m" using v by simp
  finally have d: "q / ulp q = of_int m" by (simp only: u)
  have "round_to_grid q = of_int (round_half_even (q / ulp q)) * ulp q"
    using q by (simp add: round_to_grid_def)
  also have "\<dots> = of_int m * ulp q"
    by (simp only: d round_half_even_of_int)
  also have "\<dots> = of_int m * v"
    by (simp only: u)
  finally show ?thesis by (simp only: m [symmetric])
qed

lemma scale_le:
  "a \<le> b \<Longrightarrow> (of_int a :: rat) * 2 powi k \<le> of_int b * 2 powi k"
  by (rule mult_right_mono) simp_all

lemma scale_less:
  "a < b \<Longrightarrow> (of_int a :: rat) * 2 powi k < of_int b * 2 powi k"
  by (rule mult_strict_right_mono) simp_all

lemma round_to_grid_fixed:
  assumes e: "- 1022 \<le> e" and m0: "0 < m" and m53: "m \<le> 2 ^ 53"
    and norm: "2 ^ 52 \<le> m \<or> e = - 1022"
  shows "round_to_grid (of_int m * 2 powi (e - 52)) = of_int m * 2 powi (e - 52)"
proof -
  let ?r = "of_int m * (2::rat) powi (e - 52)"
  have rpos: "0 < ?r" using m0 by simp
  then have r0: "?r \<noteq> 0" by (simp only: less_imp_neq [THEN not_sym] not_False_eq_True)
  have upper: "?r \<le> 2 powi (e + 1)"
  proof -
    have "?r \<le> of_int (2 ^ 53) * 2 powi (e - 52)"
      using m53 by (rule scale_le)
    then show ?thesis by (simp only: pow2_mult_53)
  qed
  consider (top) "m = 2 ^ 53" | (mid) "2 ^ 52 \<le> m" "m < 2 ^ 53" | (sub) "m < 2 ^ 52"
    using m53 by linarith
  then show ?thesis
  proof cases
    case top
    have r: "?r = 2 powi (e + 1)"
      using pow2_mult_53 [of e] by (simp add: top)
    have "binary_exponent ?r = e + 1"
    proof (rule binary_exponent_unique [OF r0])
      show "2 powi (e + 1) \<le> \<bar>?r\<bar>" using r by simp
      have "(2::rat) powi (e + 1) < 2 powi (e + 1 + 1)"
        by (rule power_int_strict_increasing) simp_all
      then show "\<bar>?r\<bar> < 2 powi (e + 1 + 1)" using r by simp
    qed
    then have U: "ulp ?r = 2 powi (e + 1 - 52)"
      using e by (simp add: ulp_def max_def)
    have R: "?r = of_int (2 ^ 52) * 2 powi (e + 1 - 52)"
      using pow2_mult_52 [of "e + 1"] r by simp
    show ?thesis
      by (rule round_to_grid_on_grid [OF r0 U R])
  next
    case mid
    have lo: "2 powi e \<le> ?r"
    proof -
      have "of_int (2 ^ 52) * 2 powi (e - 52) \<le> ?r"
        using mid(1) by (rule scale_le)
      then show ?thesis by (simp only: pow2_mult_52)
    qed
    have hi: "?r < 2 powi (e + 1)"
    proof -
      have "?r < of_int (2 ^ 53) * 2 powi (e - 52)"
        using mid(2) by (rule scale_less)
      then show ?thesis by (simp only: pow2_mult_53)
    qed
    have "binary_exponent ?r = e"
      using lo hi rpos by (intro binary_exponent_unique [OF r0]) simp_all
    then have U: "ulp ?r = 2 powi (e - 52)"
      using e by (simp add: ulp_def max_def)
    show ?thesis
      by (rule round_to_grid_on_grid [OF r0 U refl])
  next
    case sub
    with norm have e1: "e = - 1022" by simp
    have hi: "?r < 2 powi e"
    proof -
      have "?r < of_int (2 ^ 52) * 2 powi (e - 52)"
        using sub by (rule scale_less)
      then show ?thesis by (simp only: pow2_mult_52)
    qed
    have "2 powi binary_exponent ?r \<le> ?r"
      using binary_exponent_bounds(1) [OF r0] rpos by simp
    with hi have "(2::rat) powi binary_exponent ?r < 2 powi e" by simp
    then have "binary_exponent ?r < e" by (rule pow2_less_cancel)
    then have U: "ulp ?r = 2 powi (e - 52)"
      using e1 by (simp add: ulp_def max_def)
    show ?thesis
      by (rule round_to_grid_on_grid [OF r0 U refl])
  qed
qed

lemma round_to_grid_idem_pos:
  assumes "0 < q"
  shows "round_to_grid (round_to_grid q) = round_to_grid q"
proof -
  let ?e = "max (binary_exponent q) (- 1022)"
  let ?m = "round_half_even (q / ulp q)"
  have q0: "q \<noteq> 0" using assms by simp
  have r: "round_to_grid q = of_int ?m * 2 powi (?e - 52)"
    using q0 by (simp add: round_to_grid_def ulp_def)
  have u: "ulp q = 2 powi (?e - 52)" by (simp add: ulp_def)
  have m0: "0 \<le> ?m"
    using round_half_even_ge [of 0 "q / ulp q"] assms ulp_pos [of q] by simp
  show ?thesis
  proof (cases "?m = 0")
    case True
    then have "round_to_grid q = 0" by (simp add: r)
    then show ?thesis by (simp add: round_to_grid_def)
  next
    case False
    with m0 have mpos: "0 < ?m" by simp
    have m53: "?m \<le> 2 ^ 53"
    proof -
      have "q < 2 powi (binary_exponent q + 1)"
        using binary_exponent_bounds(2) [OF q0] assms by simp
      also have "\<dots> \<le> 2 powi (?e + 1)"
        by (rule power_int_increasing) simp_all
      finally have "q / ulp q \<le> 2 powi (?e + 1) / ulp q"
        using ulp_pos [of q] by (simp add: divide_right_mono)
      also have "\<dots> = of_int (2 ^ 53)"
        by (simp only: u pow2_div) simp
      finally show ?thesis by (rule round_half_even_le)
    qed
    have norm: "2 ^ 52 \<le> ?m \<or> ?e = - 1022"
    proof (cases "?e = - 1022")
      case True
      then show ?thesis by simp
    next
      case False
      then have big: "- 1022 \<le> binary_exponent q" and ee: "?e = binary_exponent q"
        by linarith+
      have "2 powi binary_exponent q \<le> q"
        using binary_exponent_bounds(1) [OF q0] assms by simp
      then have "2 powi ?e / ulp q \<le> q / ulp q"
        using ulp_pos [of q] by (simp add: divide_right_mono ee)
      moreover have "2 powi ?e / ulp q = of_int (2 ^ 52)"
        by (simp only: u pow2_div) simp
      ultimately have "of_int (2 ^ 52) \<le> q / ulp q" by simp
      then have "2 ^ 52 \<le> ?m" by (rule round_half_even_ge)
      then show ?thesis by simp
    qed
    have "- 1022 \<le> ?e" by simp
    from round_to_grid_fixed [OF this mpos m53 norm] show ?thesis
      by (simp only: r)
  qed
qed

lemma round_to_grid_idem: "round_to_grid (round_to_grid q) = round_to_grid q"
proof -
  consider "0 < q" | "q = 0" | "q < 0" by linarith
  then show ?thesis
  proof cases
    case 1
    then show ?thesis by (rule round_to_grid_idem_pos)
  next
    case 2
    then show ?thesis by (simp add: round_to_grid_def)
  next
    case 3
    then have "0 < - q" by simp
    then have "round_to_grid (round_to_grid (- q)) = round_to_grid (- q)"
      by (rule round_to_grid_idem_pos)
    then show ?thesis by (simp add: round_to_grid_minus)
  qed
qed


lemma round_double_finite:
  assumes "round_to_grid r = r" and "- (2 ^ 1024) < r" and "r < 2 ^ 1024"
  shows "round_double r = Num r"
  using assms by (simp add: round_double_def Let_def)

lemma round_double_Num:
  assumes "round_double q = Num r"
  shows "r = round_to_grid q" and "- (2 ^ 1024) < r" and "r < 2 ^ 1024"
  using assms by (auto simp add: round_double_def Let_def split: if_splits)

lemma round_double_idem:
  assumes "round_double q = Num r"
  shows "round_double r = Num r"
proof -
  have r: "r = round_to_grid q" and lo: "- (2 ^ 1024) < r" and hi: "r < 2 ^ 1024"
    using round_double_Num [OF assms] by simp_all
  have "round_to_grid r = r"
    by (simp only: r round_to_grid_idem)
  then show ?thesis using lo hi by (rule round_double_finite)
qed

lemma round_double_zero: "round_double 0 = Num 0"
  by (simp add: round_double_def round_to_grid_def)

lemma round_double_above:
  assumes "round_double q = Num r" and "r \<le> p"
  shows "Num r \<le> round_double p"
proof -
  have r: "r = round_to_grid q" and lo: "- (2 ^ 1024) < r"
    using round_double_Num [OF assms(1)] by simp_all
  have "round_to_grid r \<le> round_to_grid p"
    using assms(2) by (rule round_to_grid_mono)
  moreover have "round_to_grid r = r"
    by (simp only: r round_to_grid_idem)
  ultimately have "r \<le> round_to_grid p" by simp
  then show ?thesis
    using lo by (simp add: round_double_def Let_def)
qed

lemma round_half_even_tie:
  assumes "\<bar>q - of_int m\<bar> = 1 / 2" and "even m"
  shows "round_half_even q = m"
proof -
  consider "q = of_int m + 1 / 2" | "q = of_int m - 1 / 2"
    using assms(1) by (auto simp add: abs_if split: if_splits)
  then show ?thesis
  proof cases
    case 1
    have "of_int m \<le> q" and "q < of_int m + 1" by (simp_all add: 1)
    then have f: "\<lfloor>q\<rfloor> = m" by (simp add: floor_eq_iff)
    have d: "q - of_int m = 1 / 2" by (simp add: 1)
    show ?thesis
      unfolding round_half_even_def f Let_def d using assms(2) by simp
  next
    case 2
    have "of_int (m - 1) \<le> q" and "q < of_int (m - 1) + 1" by (simp_all add: 2)
    then have f: "\<lfloor>q\<rfloor> = m - 1" by (simp only: floor_eq_iff)
    have d: "q - of_int (m - 1) = 1 / 2" by (simp add: 2)
    show ?thesis
      unfolding round_half_even_def f Let_def d using assms(2) by simp
  qed
qed

lemma round_half_even_cert:
  assumes "\<bar>q - of_int m\<bar> < 1 / 2 \<or> (\<bar>q - of_int m\<bar> = 1 / 2 \<and> even m)"
  shows "round_half_even q = m"
  using assms round_half_even_nearest round_half_even_tie by blast

lemma round_double_eval:
  assumes q: "q \<noteq> 0"
    and lo: "2 powi e \<le> \<bar>q\<bar>" and hi: "\<bar>q\<bar> < 2 powi (e + 1)"
    and e: "- 1022 \<le> e"
    and m: "\<bar>q / 2 powi (e - 52) - of_int m\<bar> < 1 / 2
            \<or> (\<bar>q / 2 powi (e - 52) - of_int m\<bar> = 1 / 2 \<and> even m)"
    and r: "r = of_int m * 2 powi (e - 52)"
    and fin: "- (2 ^ 1024) < r" "r < 2 ^ 1024"
  shows "round_double q = Num r"
proof -
  have "binary_exponent q = e"
    using q lo hi by (rule binary_exponent_unique)
  then have u: "ulp q = 2 powi (e - 52)"
    using e by (simp add: ulp_def max_def)
  have "round_half_even (q / 2 powi (e - 52)) = m"
    using m by (rule round_half_even_cert)
  then have "round_half_even (q / ulp q) = m"
    by (simp only: u)
  then have "round_to_grid q = of_int m * ulp q"
    using q by (simp add: round_to_grid_def)
  then have "round_to_grid q = r"
    by (simp only: u r)
  then show ?thesis
    using fin by (simp add: round_double_def Let_def)
qed

lemmas eval_simps = power_int_def power_one_over

lemma round_double_100: "round_double 100 = Num 100"
  by (rule round_double_eval [where e = 6 and m = "100 * 2 ^ 46"]) (simp_all add: eval_simps)

lemma round_double_50: "round_double 50 = Num 50"
  by (rule round_double_eval [where e = 5 and m = "50 * 2 ^ 47"]) (simp_all add: eval_simps)

lemma round_double_40: "round_double 40 = Num 40"
  by (rule round_double_eval [where e = 5 and m = "40 * 2 ^ 47"]) (simp_all add: eval_simps)

lemma round_double_16: "round_double 16 = Num 16"
  by (rule round_double_eval [where e = 4 and m = "2 ^ 52"]) (simp_all add: eval_simps)

lemma round_double_minus_10: "round_double (- 10) = Num (- 10)"
  by (rule round_double_eval [where e = 3 and m = "- (10 * 2 ^ 49)"]) (simp_all add: eval_simps)

lemmas small_doubles =
  round_double_zero round_double_100 round_double_50 round_double_40 round_double_16
  round_double_minus_10

section \<open>The change notification of a view\<close>

lemma onViewUpdate_fields:
  "didViewChangeTick (onViewUpdate v) = didViewChangeTick v + 1"
  "boundsDirty (onViewUpdate v)"
  "didViewUpdate (onViewUpdate v)"
  "renderGroup (onViewUpdate v) = renderGroup v"
  "parentRenderGroup (onViewUpdate v) = parentRenderGroup v"
  "onChildViewUpdate_calls (onViewUpdate v) = onChildViewUpdate_calls v @ onViewUpdate_notifies v"
  by (simp_all add: onViewUpdate_def onViewUpdate_notifies_def Let_def split: option.splits)

lemma onViewUpdate_pow_tick:
  "didViewChangeTick ((onViewUpdate ^^ n) v) = didViewChangeTick v + n"
  by (induction n) (simp_all add: onViewUpdate_fields)

lemma onViewUpdate_pow_pending:
  "0 < n \<Longrightarrow> didViewUpdate ((onViewUpdate ^^ n) v)"
  by (cases n) (simp_all add: onViewUpdate_fields)

lemma onViewUpdate_pow_calls:
  "0 < n \<Longrightarrow>
   onChildViewUpdate_calls ((onViewUpdate ^^ n) v)
     = onChildViewUpdate_calls v @ onViewUpdate_notifies v"
proof (induction n)
  case 0
  then show ?case by simp
next
  case (Suc k)
  show ?case
  proof (cases "k = 0")
    case True
    then show ?thesis by (simp add: onViewUpdate_fields)
  next
    case False
    then have pos: "0 < k" by simp
    have "didViewUpdate ((onViewUpdate ^^ k) v)"
      using onViewUpdate_pow_pending [of k v] pos by simp
    then have "onViewUpdate_notifies ((onViewUpdate ^^ k) v) = []"
      by (simp add: onViewUpdate_notifies_def)
    then show ?thesis
      using Suc.IH pos by (simp add: onViewUpdate_fields)
  qed
qed

lemma AbstractText_onViewUpdate_fields:
  "didViewChangeTick (AbstractText_onViewUpdate t) = didViewChangeTick t + 1"
  "boundsDirty (AbstractText_onViewUpdate t)"
  "didViewUpdate (AbstractText_onViewUpdate t)"
  "onChildViewUpdate_calls (AbstractText_onViewUpdate t)
     = onChildViewUpdate_calls t @ onViewUpdate_notifies t"
  by (simp_all add: AbstractText_onViewUpdate_def onViewUpdate_fields onViewUpdate_notifies_def)

text \<open>
  C1 (as amended). Each call of onViewUpdate increments the change tick by exactly one
  and sets the bounds-dirty flag and didViewUpdate. It calls onChildViewUpdate exactly
  when didViewUpdate was false at the time of the call and the view has an owning render
  group or a parent render group, and then on the owning group when there is one and on
  the parent group otherwise. So n successive calls (n > 0) with no render in between
  add to the notifications exactly what the first call adds: one notification when the
  view was not pending and is in a render group, and none otherwise. The override of
  AbstractText has the same effect on these fields.
\<close>

theorem onViewUpdate_coalesces:
  "didViewChangeTick (onViewUpdate v) = didViewChangeTick v + 1
   \<and> boundsDirty (onViewUpdate v)
   \<and> didViewUpdate (onViewUpdate v)
   \<and> onChildViewUpdate_calls (onViewUpdate v)
         = onChildViewUpdate_calls v @ onViewUpdate_notifies v
   \<and> (onViewUpdate_notifies v \<noteq> [] \<longleftrightarrow>
         \<not> didViewUpdate v \<and> (renderGroup v \<noteq> None \<or> parentRenderGroup v \<noteq> None))
   \<and> length (onViewUpdate_notifies v) \<le> 1
   \<and> didViewChangeTick ((onViewUpdate ^^ n) v) = didViewChangeTick v + n
   \<and> (0 < n \<longrightarrow>
         onChildViewUpdate_calls ((onViewUpdate ^^ n) v)
           = onChildViewUpdate_calls v @ onViewUpdate_notifies v)
   \<and> didViewChangeTick (AbstractText_onViewUpdate t) = didViewChangeTick t + 1
   \<and> boundsDirty (AbstractText_onViewUpdate t)
   \<and> didViewUpdate (AbstractText_onViewUpdate t)
   \<and> onChildViewUpdate_calls (AbstractText_onViewUpdate t)
         = onChildViewUpdate_calls t @ onViewUpdate_notifies t"
proof -
  have iff: "onViewUpdate_notifies v \<noteq> [] \<longleftrightarrow>
      \<not> didViewUpdate v \<and> (renderGroup v \<noteq> None \<or> parentRenderGroup v \<noteq> None)"
    by (auto simp add: onViewUpdate_notifies_def or_else_def split: option.splits)
  have le: "length (onViewUpdate_notifies v) \<le> 1"
    by (simp add: onViewUpdate_notifies_def split: option.splits)
  show ?thesis
    using iff le onViewUpdate_pow_calls [of n v]
    by (simp add: onViewUpdate_fields onViewUpdate_pow_tick AbstractText_onViewUpdate_fields)
qed

theorem onViewUpdate_coalesces_witness:
  "(0::nat) < 3
   \<and> \<not> didViewUpdate example_view
   \<and> onChildViewUpdate_calls example_view = []
   \<and> onChildViewUpdate_calls (onViewUpdate example_view) = [7]
   \<and> onChildViewUpdate_calls ((onViewUpdate ^^ 3) example_view) = [7]
   \<and> didViewChangeTick ((onViewUpdate ^^ 3) example_view) = 3
   \<and> onChildViewUpdate_calls (AbstractText_onViewUpdate example_text) = [7]"
  using onViewUpdate_coalesces [of example_view 3 example_text]
  by (simp add: example_view_def example_text_def onViewUpdate_notifies_def or_else_def)

text \<open>
  The claim as stated fails on a view that is in no render group: didViewUpdate is false
  and yet no render group is notified, by one call or by three.
\<close>

theorem onViewUpdate_detached_counterexample:
  "\<not> didViewUpdate detached_view
   \<and> onChildViewUpdate_calls (onViewUpdate detached_view)
        = onChildViewUpdate_calls detached_view
   \<and> onChildViewUpdate_calls ((onViewUpdate ^^ 3) detached_view) = []"
  by (simp add: detached_view_def onViewUpdate_def or_else_def eval_nat_numeral)

section \<open>The cached bounds of a view\<close>

lemma get_bounds_dirty:
  "boundsDirty v \<Longrightarrow>
   get_bounds ub v = (bounds_cached (ub v), (ub v)\<lparr>boundsDirty := False\<rparr>, 1)"
  by (simp add: get_bounds_def Let_def)

lemma get_bounds_clean:
  "\<not> boundsDirty v \<Longrightarrow> get_bounds ub v = (bounds_cached v, v, 0)"
  by (simp add: get_bounds_def)


text \<open>
  C2. Reading bounds on a view whose bounds-dirty flag is false returns the cached Bounds,
  leaves the view as it is and calls updateBounds zero times. Reading bounds on a view
  whose flag is true calls updateBounds exactly once, clears the flag and returns the
  Bounds then cached. After a mutation (a call of onViewUpdate) the first read calls
  updateBounds exactly once, and a second read calls it zero times and returns the same
  Bounds.
\<close>

theorem bounds_getter_caches:
  "(\<not> boundsDirty v \<longrightarrow> get_bounds ub v = (bounds_cached v, v, 0))
   \<and> (boundsDirty v \<longrightarrow>
        get_bounds ub v = (bounds_cached (ub v), (ub v)\<lparr>boundsDirty := False\<rparr>, 1))
   \<and> (case get_bounds ub (onViewUpdate v) of
        (b1, v1, n1) \<Rightarrow>
          n1 = 1 \<and> b1 = bounds_cached v1 \<and> \<not> boundsDirty v1
          \<and> get_bounds ub v1 = (b1, v1, 0))"
  by (simp add: get_bounds_dirty get_bounds_clean onViewUpdate_fields)

theorem bounds_getter_caches_witness:
  "boundsDirty example_sprite
   \<and> snd (snd (get_bounds NineSliceSprite_updateBounds example_sprite)) = 1
   \<and> fst (get_bounds NineSliceSprite_updateBounds example_sprite)
        = \<lparr>minX = Num 0, minY = Num 0, maxX = Num 100, maxY = Num 50\<rparr>
   \<and> \<not> boundsDirty example_view
   \<and> get_bounds (\<lambda>v. v) example_view = (bounds_cached example_view, example_view, 0)"
  using bounds_getter_caches [of example_sprite NineSliceSprite_updateBounds]
    bounds_getter_caches [of example_view "\<lambda>v. v"]
  by (simp add: example_sprite_def example_view_def NineSliceSprite_updateBounds_def Let_def
      small_doubles)

section \<open>The bounds of a NineSliceSprite and of an HTMLText\<close>

lemma round_double_not_NaN: "round_double q \<noteq> NaN"
  by (simp add: round_double_def Let_def)

lemma rounded_interval_ordered:
  assumes "0 \<le> \<omega>"
  shows "round_double q \<le> round_double q + Num \<omega>"
proof (cases "round_double q")
  case (Num r)
  have "r \<le> r + \<omega>" using assms by simp
  then have "Num r \<le> round_double (r + \<omega>)"
    using Num by (rule round_double_above [rotated])
  then show ?thesis by (simp add: Num)
next
  case PInf
  then show ?thesis by simp
next
  case NInf
  then show ?thesis by simp
next
  case NaN
  then show ?thesis using round_double_not_NaN by simp
qed

lemma anchored_interval_ordered:
  assumes "is_finite a" and "is_finite w" and "Num 0 \<le> w"
  shows "- a * w \<le> - a * w + w"
proof -
  obtain \<alpha> where a: "a = Num \<alpha>"
    using assms(1) by (cases a) (simp_all add: is_finite_def)
  obtain \<omega> where w: "w = Num \<omega>"
    using assms(2) by (cases w) (simp_all add: is_finite_def)
  have pos: "0 \<le> \<omega>"
    using assms(3) by (simp add: w)
  show ?thesis
    using rounded_interval_ordered [OF pos, of "- (\<alpha> * \<omega>)"] by (simp add: a w)
qed

lemma NineSliceSprite_updateBounds_bounds:
  "bounds_cached (NineSliceSprite_updateBounds s) =
     \<lparr>minX = - p_x (ns_anchor s) * ns_width s,
      minY = - p_y (ns_anchor s) * ns_height s,
      maxX = - p_x (ns_anchor s) * ns_width s + ns_width s,
      maxY = - p_y (ns_anchor s) * ns_height s + ns_height s\<rparr>"
  by (simp add: NineSliceSprite_updateBounds_def Let_def)

lemma HTMLText_updateBounds_bounds:
  "bounds_cached (HTMLText_updateBounds measureHtmlText t) =
     \<lparr>minX = - p_x (at_anchor t) * width (measureHtmlText (at_text t) (at_style t)),
      minY = - p_y (at_anchor t) * height (measureHtmlText (at_text t) (at_style t)),
      maxX = - p_x (at_anchor t) * width (measureHtmlText (at_text t) (at_style t))
               + width (measureHtmlText (at_text t) (at_style t)),
      maxY = - p_y (at_anchor t) * height (measureHtmlText (at_text t) (at_style t))
               + height (measureHtmlText (at_text t) (at_style t))\<rparr>"
  by (simp add: HTMLText_updateBounds_def Let_def)

text \<open>
  C6 (as amended). When the bounds getter of a NineSliceSprite computes bounds through
  updateBounds, and the coordinates of the anchor, the width and the height of the sprite
  are finite numbers, the width and the height not negative, the result satisfies
  minX \<le> maxX and minY \<le> maxY. When the bounds getter of an HTMLText computes bounds
  through updateBounds, and the coordinates of the anchor and the measured width and
  height of the text are finite numbers, the width and the height not negative, the
  result satisfies minX \<le> maxX and minY \<le> maxY.
\<close>

theorem updateBounds_ordered:
  "(boundsDirty s
      \<and> is_finite (p_x (ns_anchor s)) \<and> is_finite (p_y (ns_anchor s))
      \<and> is_finite (ns_width s) \<and> is_finite (ns_height s)
      \<and> Num 0 \<le> ns_width s \<and> Num 0 \<le> ns_height s
    \<longrightarrow> Bounds_ordered (fst (get_bounds NineSliceSprite_updateBounds s)))
   \<and> (boundsDirty t
      \<and> is_finite (p_x (at_anchor t)) \<and> is_finite (p_y (at_anchor t))
      \<and> is_finite (width (measureHtmlText (at_text t) (at_style t)))
      \<and> is_finite (height (measureHtmlText (at_text t) (at_style t)))
      \<and> Num 0 \<le> width (measureHtmlText (at_text t) (at_style t))
      \<and> Num 0 \<le> height (measureHtmlText (at_text t) (at_style t))
    \<longrightarrow> Bounds_ordered (fst (get_bounds (HTMLText_updateBounds measureHtmlText) t)))"
  by (simp add: get_bounds_dirty NineSliceSprite_updateBounds_bounds
      HTMLText_updateBounds_bounds Bounds_ordered_def anchored_interval_ordered)

theorem updateBounds_ordered_witness:
  "boundsDirty example_sprite
   \<and> is_finite (p_x (ns_anchor example_sprite)) \<and> is_finite (p_y (ns_anchor example_sprite))
   \<and> is_finite (ns_width example_sprite) \<and> is_finite (ns_height example_sprite)
   \<and> Num 0 \<le> ns_width example_sprite \<and> Num 0 \<le> ns_height example_sprite
   \<and> Bounds_ordered (fst (get_bounds NineSliceSprite_updateBounds example_sprite))
   \<and> boundsDirty example_text
   \<and> is_finite (p_x (at_anchor example_text)) \<and> is_finite (p_y (at_anchor example_text))
   \<and> is_finite (width (example_measure (at_text example_text) (at_style example_text)))
   \<and> is_finite (height (example_measure (at_text example_text) (at_style example_text)))
   \<and> Num 0 \<le> width (example_measure (at_text example_text) (at_style example_text))
   \<and> Num 0 \<le> height (example_measure (at_text example_text) (at_style example_text))
   \<and> Bounds_ordered (fst (get_bounds (HTMLText_updateBounds example_measure) example_text))"
  using updateBounds_ordered [of example_sprite example_text example_measure]
  by (simp add: example_sprite_def example_text_def example_measure_def is_finite_def)

text \<open>
  The claim as stated fails for both classes. The width setter of the sprite accepts any
  number: a width of -10 gives maxX = -10 below minX = 0, an infinite width gives
  minX = -0 * Infinity = NaN, and a NaN anchor gives NaN bounds. The bounds of an HTMLText
  are unordered in the same way when the measured width is negative or infinite, or the
  anchor NaN. No comparison with NaN holds.
\<close>

theorem updateBounds_unordered_counterexample:
  "boundsDirty (set_width (Num (- 10)) example_sprite)
   \<and> minX (fst (get_bounds NineSliceSprite_updateBounds (set_width (Num (- 10)) example_sprite)))
        = Num 0
   \<and> maxX (fst (get_bounds NineSliceSprite_updateBounds (set_width (Num (- 10)) example_sprite)))
        = Num (- 10)
   \<and> \<not> Bounds_ordered
         (fst (get_bounds NineSliceSprite_updateBounds (set_width (Num (- 10)) example_sprite)))
   \<and> boundsDirty (set_width PInf example_sprite)
   \<and> \<not> Bounds_ordered
         (fst (get_bounds NineSliceSprite_updateBounds (set_width PInf example_sprite)))
   \<and> boundsDirty nan_anchor_sprite
   \<and> \<not> Bounds_ordered (fst (get_bounds NineSliceSprite_updateBounds nan_anchor_sprite))
   \<and> boundsDirty example_text
   \<and> \<not> Bounds_ordered
         (fst (get_bounds (HTMLText_updateBounds negative_measure) example_text))
   \<and> \<not> Bounds_ordered
         (fst (get_bounds (HTMLText_updateBounds infinite_measure) example_text))
   \<and> boundsDirty nan_anchor_text
   \<and> \<not> Bounds_ordered
         (fst (get_bounds (HTMLText_updateBounds example_measure) nan_anchor_text))"
  by (simp add: get_bounds_def NineSliceSprite_updateBounds_bounds HTMLText_updateBounds_bounds
      set_width_def onViewUpdate_def example_sprite_def example_text_def nan_anchor_text_def
      nan_anchor_sprite_def example_measure_def negative_measure_def infinite_measure_def
      Let_def or_else_def Bounds_ordered_def small_doubles)

section \<open>Hit testing of texts\<close>


















section \<open>Setters that are given the value the view already has\<close>

text \<open>
  C9. Setting the texture of a NineSliceSprite to the texture object it already holds
  (or to a falsy value when it holds Texture.EMPTY), and setting the text of an
  AbstractText to a value whose string form equals the current text, leave the whole
  state of the view as it was: the change tick, the bounds-dirty flag, didViewUpdate,
  the notifications of render groups and the listeners are unchanged, so onViewUpdate
  was not called.
\<close>

theorem setters_same_value_noop:
  "(ns_texture s = Some tex \<longrightarrow> set_texture Texture_EMPTY (Some tex) s = s)
   \<and> (ns_texture s = Some Texture_EMPTY \<longrightarrow> set_texture Texture_EMPTY None s = s)
   \<and> (toString v = at_text t \<longrightarrow> set_text toString v t = t)"
  by (simp add: set_texture_def set_text_def)

theorem setters_same_value_noop_witness:
  "ns_texture example_sprite = Some example_texture
   \<and> set_texture empty_texture (Some example_texture) example_sprite = example_sprite
   \<and> didViewChangeTick (set_texture empty_texture (Some example_texture) example_sprite) = 0
   \<and> ns_texture (example_sprite\<lparr>ns_texture := Some empty_texture\<rparr>) = Some empty_texture
   \<and> set_texture empty_texture None (example_sprite\<lparr>ns_texture := Some empty_texture\<rparr>)
        = example_sprite\<lparr>ns_texture := Some empty_texture\<rparr>
   \<and> id ''hello'' = at_text example_text
   \<and> set_text id ''hello'' example_text = example_text
   \<and> onChildViewUpdate_calls (set_text id ''hello'' example_text) = []"
  using setters_same_value_noop [of example_sprite example_texture empty_texture id "''hello''" example_text]
    setters_same_value_noop [of "example_sprite\<lparr>ns_texture := Some empty_texture\<rparr>"
      empty_texture empty_texture id "''hello''" example_text]
  by (simp add: example_sprite_def example_text_def)

section \<open>The mesh pipe\<close>

lemma getBatchableMesh_meshDataHash_update:
  "fst (getBatchableMesh pooled (this\<lparr>meshDataHash := h\<rparr>) mesh)
     = fst (getBatchableMesh pooled this mesh)"
  by (simp add: getBatchableMesh_def initBatchableMesh_def Let_def setTexture_def
      split: option.splits)










text \<open>
  C5. A call of destroyRenderable followed at once by a second call for the same mesh
  completes (the model has no failing branch on a live pipe); afterwards the pipe holds
  no mesh-data record and no batch record under the uid of the mesh, the record that was
  stored there, if any, has been handed back to the pool exactly once, and the second
  call has changed nothing.
\<close>

theorem destroyRenderable_twice:
  "(let p1 = destroyRenderable p m; p2 = destroyRenderable p1 m
    in meshDataHash p2 (uid m) = None
       \<and> gpuBatchableMeshHash p2 (uid m) = None
       \<and> BigPool_returned p2 =
           BigPool_returned p
             @ (case gpuBatchableMeshHash p (uid m) of Some g \<Rightarrow> [g] | None \<Rightarrow> [])
       \<and> p2 = p1)"
  by (simp add: destroyRenderable_def Let_def split: option.splits)

text \<open>
  C7 (as amended). For a batched mesh whose batch record exists and has a batcher,
  updateRenderable sets the texture and the geometry of that record to those of the mesh
  and tells the batcher through updateElement, and does nothing else. Whenever
  updateRenderable completes, the mesh-data records of the pipe are unchanged and the
  calls it made on the batcher contain no checkAndUpdateTexture. For a mesh that is not
  batched it changes nothing.
\<close>

theorem updateRenderable_fast_path:
  "(batched m \<and> gpuBatchableMeshHash p (uid m) = Some g \<and> batcher g \<noteq> None \<longrightarrow>
      (let g1 = g\<lparr>texture := m_texture m, geometry := m_geometry m\<rparr>
       in updateRenderable p m =
            Inr (p\<lparr>gpuBatchableMeshHash := (gpuBatchableMeshHash p)(uid m \<mapsto> g1),
                   batcher_calls := batcher_calls p @ [UpdateElement g1]\<rparr>)))
   \<and> (\<not> batched m \<longrightarrow> updateRenderable p m = Inr p)
   \<and> (\<forall>p'. updateRenderable p m = Inr p' \<longrightarrow>
         meshDataHash p' = meshDataHash p
         \<and> (\<forall>b t. CheckAndUpdateTexture b t
                     \<notin> set (drop (length (batcher_calls p)) (batcher_calls p'))))"
  by (auto simp add: updateRenderable_def batcher_updateElement_def setTexture_def Let_def
      split: option.splits if_splits)

theorem updateRenderable_fast_path_witness:
  "batched example_mesh
   \<and> gpuBatchableMeshHash example_pipe (uid example_mesh) = Some example_record
   \<and> batcher example_record \<noteq> None
   \<and> updateRenderable example_pipe example_mesh =
       Inr (example_pipe\<lparr>gpuBatchableMeshHash := (gpuBatchableMeshHash example_pipe)
                (5 \<mapsto> example_record\<lparr>texture := example_texture\<rparr>),
              batcher_calls := [UpdateElement (example_record\<lparr>texture := example_texture\<rparr>)]\<rparr>)
   \<and> \<not> batched example_mesh_alone
   \<and> updateRenderable example_pipe example_mesh_alone = Inr example_pipe"
proof -
  have b: "batched example_mesh"
    by (simp add: example_mesh_def)
  have u: "uid example_mesh = 5"
    by (simp add: example_mesh_def)
  have g: "gpuBatchableMeshHash example_pipe (uid example_mesh) = Some example_record"
    by (simp add: example_pipe_def example_mesh_def)
  have n: "\<not> batched example_mesh_alone"
    by (simp add: example_mesh_alone_def)
  have t: "batcher example_record \<noteq> None"
    by (simp add: example_record_def)
  have c: "batcher_calls example_pipe = []"
    by (simp add: example_pipe_def)
  have e: "example_record\<lparr>texture := m_texture example_mesh,
      geometry := m_geometry example_mesh\<rparr> = example_record\<lparr>texture := example_texture\<rparr>"
    by (simp add: example_record_def example_mesh_def)
  have r1: "updateRenderable example_pipe example_mesh =
       Inr (example_pipe\<lparr>gpuBatchableMeshHash := (gpuBatchableMeshHash example_pipe)
                (5 \<mapsto> example_record\<lparr>texture := example_texture\<rparr>),
              batcher_calls := [UpdateElement (example_record\<lparr>texture := example_texture\<rparr>)]\<rparr>)"
    using conjunct1 [OF updateRenderable_fast_path [of example_mesh example_pipe example_record]]
      b g t
    by (simp only: Let_def c e u append_Nil simp_thms)
  have r2: "updateRenderable example_pipe example_mesh_alone = Inr example_pipe"
    using conjunct1 [OF conjunct2
        [OF updateRenderable_fast_path [of example_mesh_alone example_pipe example_record]]] n
    by simp
  show ?thesis
    using b g t n r1 r2 by (simp only: simp_thms)
qed

text \<open>
  The claim as stated fails: a batch record can exist without a batcher. The record that
  \<^verbatim>\<open>_getBatchableMesh\<close> takes from the pool and stores has none, and on it updateRenderable
  raises a TypeError at the call of updateElement instead of telling a batcher.
\<close>

theorem updateRenderable_unset_batcher_counterexample:
  "batched example_mesh
   \<and> map_option batcher (gpuBatchableMeshHash pipe_with_pooled_record (uid example_mesh))
       = Some None
   \<and> updateRenderable pipe_with_pooled_record example_mesh = Inl TypeError"
  by (simp add: updateRenderable_def pipe_with_pooled_record_def pipe_without_record_def
      getBatchableMesh_def initBatchableMesh_def setTexture_def example_pipe_def
      example_mesh_def pooled_record_def Let_def)

section \<open>Tint composition\<close>

text \<open>
  C10. White is a two-sided identity of multiplyColors: for every colour c (in particular
  every 24-bit BGR colour) and whatever multiplyHexColors computes,
  multiplyColors(0xFFFFFF, c) = c and multiplyColors(c, 0xFFFFFF) = c.
\<close>

theorem multiplyColors_white_identity:
  "multiplyColors mhc 0xFFFFFF c = c \<and> multiplyColors mhc c 0xFFFFFF = c"
  by (simp add: multiplyColors_def WHITE_BGR_def)

end
